theory Spec2Isabelle
  imports Complex_Main "HOL-Library.Word"
begin

section \<open>Data model of the scene manager\<close>

text \<open>
  The development embeds \<^verbatim>\<open>SceneManager.cpp\<close>. The class declaration
  (\<^verbatim>\<open>SceneManager.h\<close>) is not among the sources, so the members are taken as the
  constructor and the methods use them: \<^verbatim>\<open>m_textureIDs\<close> is the array whose 16
  elements the constructor initialises, \<^verbatim>\<open>ID\<close> is a \<^verbatim>\<open>GLuint\<close> (its address is
  passed to \<^verbatim>\<open>glGenTextures\<close>), \<^verbatim>\<open>m_loadedTextures\<close> is an \<^verbatim>\<open>int\<close> counter and
  \<^verbatim>\<open>m_objectMaterials\<close> is a \<^verbatim>\<open>std::vector\<close>.

  GLM's \<^verbatim>\<open>float\<close> vectors and matrices are modelled over the reals: arithmetic is
  exact, rounding is outside the model.
\<close>

datatype vec2 = Vec2 real real
datatype vec3 = Vec3 real real real
datatype vec4 = Vec4 real real real real

text \<open>A \<^verbatim>\<open>glm::mat4\<close> is column-major: four columns, each a \<^verbatim>\<open>vec4\<close>.\<close>

datatype mat4 = Mat4 vec4 vec4 vec4 vec4

record TEXTURE_INFO =
  tag :: string
  ID :: "32 word"

record OBJECT_MATERIAL =
  ambientColor :: vec3
  ambientStrength :: real
  diffuseColor :: vec3
  specularColor :: vec3
  shininess :: real
  tag :: string

text \<open>
  The collaborators (shader manager, OpenGL, the image decoder, the mesh library) are
  outside the repository. Every call the scene manager makes on them is recorded, in
  order, with its arguments.
\<close>

datatype gl_param = GL_TEXTURE_WRAP_S | GL_TEXTURE_WRAP_T
  | GL_TEXTURE_MIN_FILTER | GL_TEXTURE_MAG_FILTER

datatype gl_value = GL_REPEAT | GL_LINEAR

datatype gl_format = GL_RGB8 | GL_RGBA8

datatype call =
    setMat4Value string mat4
  | setIntValue string int
  | setVec4Value string vec4
  | setVec2Value string vec2
  | setVec3Value string vec3
  | setFloatValue string real
  | setSampler2DValue string int
  | glGenTextures "32 word"
  | glDeleteTextures "32 word"
  | glBindTexture "32 word"
  | glActiveTexture int
  | glTexParameteri gl_param gl_value
  | glTexImage2D gl_format int int
  | glGenerateMipmap
  | stbi_image_free
  | DrawBoxMesh
  | DrawCylinderMesh
  | DrawPlaneMesh
  | DrawTaperedCylinderMesh
  | DrawConeMesh

text \<open>
  \<open>glGenTextures n\<close> records a call of \<^verbatim>\<open>glGenTextures(1, &x)\<close> that stored the
  name \<open>n\<close> in \<^verbatim>\<open>x\<close>. \<open>glDeleteTextures\<close> is the deletion entry point of the
  graphics API; no method of the scene manager calls it.
\<close>

datatype pointer = NULL | Object

record SceneManager =
  m_pShaderManager :: pointer
  m_textureIDs :: "TEXTURE_INFO list"
  m_loadedTextures :: int
  m_objectMaterials :: "OBJECT_MATERIAL list"
  effects :: "call list"

text \<open>
  What C++ leaves undefined is a fault of the model: a member call through a null
  pointer, and an array access outside the array.
\<close>

datatype fault = NullPointerDereference | ArrayIndexOutOfBounds int

definition emit :: "call list \<Rightarrow> SceneManager \<Rightarrow> SceneManager" where
  "emit cs s = s\<lparr>effects := effects s @ cs\<rparr>"

text \<open>The constructor: 16 slots tagged \<^verbatim>\<open>"/0"\<close> with ID \<^verbatim>\<open>-1\<close>, none loaded.\<close>

definition SceneManager_ctor :: "pointer \<Rightarrow> SceneManager" where
  "SceneManager_ctor pShaderManager =
     \<lparr>m_pShaderManager = pShaderManager,
      m_textureIDs = replicate 16 \<lparr>TEXTURE_INFO.tag = ''/0'', ID = - 1\<rparr>,
      m_loadedTextures = 0,
      m_objectMaterials = [],
      effects = []\<rparr>"

section \<open>Material registry\<close>

text \<open>
  \<^verbatim>\<open>FindMaterial\<close>: the \<^verbatim>\<open>while\<close> loop with its variables \<^verbatim>\<open>index\<close> and
  \<^verbatim>\<open>bFound\<close>; \<open>material\<close> is the caller's object behind the reference parameter.
\<close>

function FindMaterial_loop ::
  "OBJECT_MATERIAL list \<Rightarrow> string \<Rightarrow> OBJECT_MATERIAL \<Rightarrow> nat \<Rightarrow> bool \<Rightarrow> OBJECT_MATERIAL"
where
  "FindMaterial_loop ms t material index bFound =
     (if index < length ms \<and> bFound = False then
        (if OBJECT_MATERIAL.tag (ms ! index) = t then
           FindMaterial_loop ms t
             (material\<lparr>ambientColor := ambientColor (ms ! index),
                        ambientStrength := ambientStrength (ms ! index),
                        diffuseColor := diffuseColor (ms ! index),
                        specularColor := specularColor (ms ! index),
                        shininess := shininess (ms ! index)\<rparr>)
             index True
         else FindMaterial_loop ms t material (index + 1) bFound)
      else material)"
  by pat_completeness auto
termination
  by (relation "measure (\<lambda>(ms, t, material, index, bFound).
        (length ms - index) + (if bFound then 0 else 1))") auto

declare FindMaterial_loop.simps [simp del]

text \<open>
  The method returns \<^verbatim>\<open>false\<close> on an empty vector and the constant \<^verbatim>\<open>true\<close>
  after the loop.
\<close>

definition FindMaterial ::
  "SceneManager \<Rightarrow> string \<Rightarrow> OBJECT_MATERIAL \<Rightarrow> bool \<times> OBJECT_MATERIAL"
where
  "FindMaterial s t material =
     (if length (m_objectMaterials s) = 0 then (False, material)
      else (True, FindMaterial_loop (m_objectMaterials s) t material 0 False))"

text \<open>
  \<^verbatim>\<open>SetShaderMaterial\<close>. The local \<^verbatim>\<open>OBJECT_MATERIAL material\<close> is declared without
  an initialiser; \<open>material\<close> is the content it happens to hold. The five writes go
  through \<^verbatim>\<open>m_pShaderManager\<close> with no null test.
\<close>

definition SetShaderMaterial ::
  "OBJECT_MATERIAL \<Rightarrow> string \<Rightarrow> SceneManager \<Rightarrow> fault + SceneManager"
where
  "SetShaderMaterial material materialTag s =
     (if length (m_objectMaterials s) > 0 then
        (case FindMaterial s materialTag material of
           (bReturn, material') \<Rightarrow>
             if bReturn = True then
               (if m_pShaderManager s = NULL then Inl NullPointerDereference
                else Inr (emit
                  [setVec3Value ''material.ambientColor'' (ambientColor material'),
                   setFloatValue ''material.ambientStrength'' (ambientStrength material'),
                   setVec3Value ''material.diffuseColor'' (diffuseColor material'),
                   setVec3Value ''material.specularColor'' (specularColor material'),
                   setFloatValue ''material.shininess'' (shininess material')] s))
             else Inr s)
      else Inr s)"

section \<open>Texture registry\<close>

text \<open>
  \<^verbatim>\<open>CreateGLTexture\<close>. \<open>decoded\<close> is what \<^verbatim>\<open>stbi_load\<close> returned for the file
  (\<open>None\<close> for a null pointer, else width, height and channel count), \<open>textureID\<close>
  the name \<^verbatim>\<open>glGenTextures\<close> stored, \<open>filename\<close> the \<^verbatim>\<open>const char*\<close> argument
  (\<open>None\<close> when null). Console output is not modelled.

  The statements after the channel test (lines 115 to 127): mipmaps, freeing the
  image, unbinding, then the store into \<^verbatim>\<open>m_textureIDs[m_loadedTextures]\<close> and the
  increment. The source makes the store without comparing the index with the array's
  size.
\<close>

definition CreateGLTexture_register ::
  "32 word \<Rightarrow> string \<Rightarrow> SceneManager \<Rightarrow> fault + (bool \<times> SceneManager)"
where
  "CreateGLTexture_register textureID t s =
     (let s' = emit [glGenerateMipmap, stbi_image_free, glBindTexture 0] s;
          n = m_loadedTextures s'
      in if 0 \<le> n \<and> n < int (length (m_textureIDs s')) then
           Inr (True,
             s'\<lparr>m_textureIDs := (m_textureIDs s')
                    [nat n := (m_textureIDs s' ! nat n)\<lparr>ID := textureID, TEXTURE_INFO.tag := t\<rparr>],
                m_loadedTextures := n + 1\<rparr>)
         else Inl (ArrayIndexOutOfBounds n))"

definition CreateGLTexture ::
  "(int \<times> int \<times> int) option \<Rightarrow> 32 word \<Rightarrow> string option \<Rightarrow> string \<Rightarrow> SceneManager
     \<Rightarrow> fault + (bool \<times> SceneManager)"
where
  "CreateGLTexture decoded textureID filename t s =
     (case decoded of
        None \<Rightarrow> Inr (False, s)
      | Some (width, height, colorChannels) \<Rightarrow>
          (let s' = emit
                 [glGenTextures textureID, glBindTexture textureID,
                  glTexParameteri GL_TEXTURE_WRAP_S GL_REPEAT,
                  glTexParameteri GL_TEXTURE_WRAP_T GL_REPEAT,
                  glTexParameteri GL_TEXTURE_MIN_FILTER GL_LINEAR,
                  glTexParameteri GL_TEXTURE_MAG_FILTER GL_LINEAR] s
           in if colorChannels = 3 \<and> filename \<noteq> None then
                CreateGLTexture_register textureID t
                  (emit [glTexImage2D GL_RGB8 width height] s')
              else if colorChannels = 4 then
                CreateGLTexture_register textureID t
                  (emit [glTexImage2D GL_RGBA8 width height] s')
              else Inr (False, s')))"

text \<open>
  \<^verbatim>\<open>DestroyGLTextures\<close>: the \<^verbatim>\<open>for\<close> loop over the loaded slots. Its body calls
  \<^verbatim>\<open>glGenTextures(1, &m_textureIDs[i].ID)\<close>; \<open>textureNames i\<close> is the name that call
  stores at iteration \<open>i\<close>.
\<close>

function DestroyGLTextures_loop ::
  "(int \<Rightarrow> 32 word) \<Rightarrow> int \<Rightarrow> SceneManager \<Rightarrow> fault + SceneManager"
where
  "DestroyGLTextures_loop textureNames i s =
     (if i < m_loadedTextures s then
        (if 0 \<le> i \<and> i < int (length (m_textureIDs s)) then
           DestroyGLTextures_loop textureNames (i + 1)
             (emit [glGenTextures (textureNames i)]
                (s\<lparr>m_textureIDs := (m_textureIDs s)
                      [nat i := (m_textureIDs s ! nat i)\<lparr>ID := textureNames i\<rparr>]\<rparr>))
         else Inl (ArrayIndexOutOfBounds i))
      else Inr s)"
  by pat_completeness auto
termination
  by (relation "measure (\<lambda>(textureNames, i, s). nat (m_loadedTextures s - i))")
     (auto simp: emit_def)

declare DestroyGLTextures_loop.simps [simp del]

definition DestroyGLTextures :: "(int \<Rightarrow> 32 word) \<Rightarrow> SceneManager \<Rightarrow> fault + SceneManager" where
  "DestroyGLTextures textureNames s = DestroyGLTextures_loop textureNames 0 s"

text \<open>
  \<^verbatim>\<open>FindTextureSlot\<close>: the \<^verbatim>\<open>while\<close> loop with its three variables.
\<close>

function FindTextureSlot_loop ::
  "SceneManager \<Rightarrow> string \<Rightarrow> int \<Rightarrow> int \<Rightarrow> bool \<Rightarrow> fault + int"
where
  "FindTextureSlot_loop s t textureSlot index bFound =
     (if index < m_loadedTextures s \<and> bFound = False then
        (if 0 \<le> index \<and> index < int (length (m_textureIDs s)) then
           (if TEXTURE_INFO.tag (m_textureIDs s ! nat index) = t then
              FindTextureSlot_loop s t index index True
            else FindTextureSlot_loop s t textureSlot (index + 1) bFound)
         else Inl (ArrayIndexOutOfBounds index))
      else Inr textureSlot)"
  by pat_completeness auto
termination
  by (relation "measure (\<lambda>(s, t, textureSlot, index, bFound).
        nat (m_loadedTextures s - index) + (if bFound then 0 else 1))") auto

declare FindTextureSlot_loop.simps [simp del]

definition FindTextureSlot :: "SceneManager \<Rightarrow> string \<Rightarrow> fault + int" where
  "FindTextureSlot s t = FindTextureSlot_loop s t (- 1) 0 False"

section \<open>The GLM operations the scene manager calls\<close>

text \<open>
  GLM is a third-party library; these are its documented operations on the identity
  matrix, over the reals. \<open>mat4_mul\<close> is \<^verbatim>\<open>operator*\<close> on two matrices (column
  \<open>j\<close> of the product is the left matrix applied to column \<open>j\<close> of the right one),
  \<open>mat4_mul_vec4\<close> the product of a matrix and a column vector.
\<close>

fun vec4_scale :: "vec4 \<Rightarrow> real \<Rightarrow> vec4" where
  "vec4_scale (Vec4 x y z w) k = Vec4 (x * k) (y * k) (z * k) (w * k)"

fun vec4_add :: "vec4 \<Rightarrow> vec4 \<Rightarrow> vec4" where
  "vec4_add (Vec4 x y z w) (Vec4 x' y' z' w') = Vec4 (x + x') (y + y') (z + z') (w + w')"

fun mat4_mul_vec4 :: "mat4 \<Rightarrow> vec4 \<Rightarrow> vec4" where
  "mat4_mul_vec4 (Mat4 c0 c1 c2 c3) (Vec4 x y z w) =
     vec4_add (vec4_add (vec4_add (vec4_scale c0 x) (vec4_scale c1 y)) (vec4_scale c2 z))
       (vec4_scale c3 w)"

fun mat4_mul :: "mat4 \<Rightarrow> mat4 \<Rightarrow> mat4" where
  "mat4_mul a (Mat4 b0 b1 b2 b3) =
     Mat4 (mat4_mul_vec4 a b0) (mat4_mul_vec4 a b1) (mat4_mul_vec4 a b2) (mat4_mul_vec4 a b3)"

definition radians :: "real \<Rightarrow> real" where
  "radians degrees = degrees * (pi / 180)"

fun glm_scale :: "vec3 \<Rightarrow> mat4" where
  "glm_scale (Vec3 x y z) =
     Mat4 (Vec4 x 0 0 0) (Vec4 0 y 0 0) (Vec4 0 0 z 0) (Vec4 0 0 0 1)"

fun glm_translate :: "vec3 \<Rightarrow> mat4" where
  "glm_translate (Vec3 x y z) =
     Mat4 (Vec4 1 0 0 0) (Vec4 0 1 0 0) (Vec4 0 0 1 0) (Vec4 x y z 1)"

fun normalize :: "vec3 \<Rightarrow> vec3" where
  "normalize (Vec3 x y z) =
     (let n = sqrt (x * x + y * y + z * z) in Vec3 (x / n) (y / n) (z / n))"

text \<open>
  \<^verbatim>\<open>glm::rotate(angle, v)\<close>: the rotation by \<open>angle\<close> radians about the normalised
  axis \<open>v\<close>, with \<open>c\<close>, \<open>s\<close> and \<open>temp = (1 - c) * axis\<close> as in GLM.
\<close>

definition glm_rotate :: "real \<Rightarrow> vec3 \<Rightarrow> mat4" where
  "glm_rotate angle v =
     (case normalize v of Vec3 ax ay az \<Rightarrow>
        let c = cos angle; s = sin angle;
            tx = (1 - c) * ax; ty = (1 - c) * ay; tz = (1 - c) * az
        in Mat4 (Vec4 (c + tx * ax) (tx * ay + s * az) (tx * az - s * ay) 0)
                (Vec4 (ty * ax - s * az) (c + ty * ay) (ty * az + s * ax) 0)
                (Vec4 (tz * ax + s * ay) (tz * ay - s * ax) (c + tz * az) 0)
                (Vec4 0 0 0 1))"

section \<open>Transform and draw-state composers\<close>

text \<open>
  The local \<^verbatim>\<open>modelView\<close> of \<^verbatim>\<open>SetTransformations\<close>:
  \<^verbatim>\<open>translation * rotationX * rotationY * rotationZ * scale\<close>, which C++ reads from
  the left.
\<close>

definition modelView :: "vec3 \<Rightarrow> real \<Rightarrow> real \<Rightarrow> real \<Rightarrow> vec3 \<Rightarrow> mat4" where
  "modelView scaleXYZ XrotationDegrees YrotationDegrees ZrotationDegrees positionXYZ =
     (let scale = glm_scale scaleXYZ;
          rotationX = glm_rotate (radians XrotationDegrees) (Vec3 1 0 0);
          rotationY = glm_rotate (radians YrotationDegrees) (Vec3 0 1 0);
          rotationZ = glm_rotate (radians ZrotationDegrees) (Vec3 0 0 1);
          translation = glm_translate positionXYZ
      in mat4_mul (mat4_mul (mat4_mul (mat4_mul translation rotationX) rotationY) rotationZ)
           scale)"

definition SetTransformations ::
  "vec3 \<Rightarrow> real \<Rightarrow> real \<Rightarrow> real \<Rightarrow> vec3 \<Rightarrow> SceneManager \<Rightarrow> fault + SceneManager"
where
  "SetTransformations scaleXYZ XrotationDegrees YrotationDegrees ZrotationDegrees positionXYZ s =
     (if NULL \<noteq> m_pShaderManager s then
        Inr (emit [setMat4Value ''model''
          (modelView scaleXYZ XrotationDegrees YrotationDegrees ZrotationDegrees positionXYZ)] s)
      else Inr s)"

definition SetShaderColor ::
  "real \<Rightarrow> real \<Rightarrow> real \<Rightarrow> real \<Rightarrow> SceneManager \<Rightarrow> fault + SceneManager"
where
  "SetShaderColor redColorValue greenColorValue blueColorValue alphaValue s =
     (if NULL \<noteq> m_pShaderManager s then
        Inr (emit [setIntValue ''bUseTexture'' 0,
                   setVec4Value ''objectColor''
                     (Vec4 redColorValue greenColorValue blueColorValue alphaValue)] s)
      else Inr s)"

definition SetShaderTexture :: "string \<Rightarrow> SceneManager \<Rightarrow> fault + SceneManager" where
  "SetShaderTexture textureTag s =
     (if NULL \<noteq> m_pShaderManager s then
        (case FindTextureSlot s textureTag of
           Inl f \<Rightarrow> Inl f
         | Inr textureID \<Rightarrow>
             Inr (emit [setIntValue ''bUseTexture'' 1,
                        setSampler2DValue ''objectTexture'' textureID] s))
      else Inr s)"

definition SetTextureUVScale :: "real \<Rightarrow> real \<Rightarrow> SceneManager \<Rightarrow> fault + SceneManager" where
  "SetTextureUVScale u v s =
     (if NULL \<noteq> m_pShaderManager s then Inr (emit [setVec2Value ''UVscale'' (Vec2 u v)] s)
      else Inr s)"

text \<open>A draw call on the mesh library, \<^verbatim>\<open>m_basicMeshes->Draw...Mesh()\<close>.\<close>

definition m_basicMeshes :: "call \<Rightarrow> SceneManager \<Rightarrow> fault + SceneManager" where
  "m_basicMeshes draw s = Inr (emit [draw] s)"

text \<open>Statements in sequence; a fault ends the run.\<close>

fun sequence ::
  "(SceneManager \<Rightarrow> fault + SceneManager) list \<Rightarrow> SceneManager \<Rightarrow> fault + SceneManager"
where
  "sequence [] s = Inr s"
| "sequence (c # cs) s = (case c s of Inl f \<Rightarrow> Inl f | Inr s' \<Rightarrow> sequence cs s')"

section \<open>Scene assembler\<close>

text \<open>
  \<^verbatim>\<open>DefineObjectMaterials\<close>: eight materials pushed to the back of the vector.
\<close>

definition DefineObjectMaterials :: "SceneManager \<Rightarrow> SceneManager" where
  "DefineObjectMaterials s =
     (let matMult = 0.25 :: real;
          woodMat = \<lparr>ambientColor = Vec3 0.38 0.26 0.1, ambientStrength = 0.2 * matMult,
            diffuseColor = Vec3 0.36 0.24 0.12, specularColor = Vec3 0.12 0.14 0.08,
            shininess = 0.3, OBJECT_MATERIAL.tag = ''wood''\<rparr>;
          plasticMat = \<lparr>ambientColor = Vec3 0.0005 0.0005 0.0005, ambientStrength = 0.3,
            diffuseColor = Vec3 0.05 0.05 0.06, specularColor = Vec3 0.06 0.05 0.05,
            shininess = 0.2, OBJECT_MATERIAL.tag = ''plastic''\<rparr>;
          rubberMat = \<lparr>ambientColor = Vec3 0.92 0.24 0.90, ambientStrength = 0.3 * matMult,
            diffuseColor = Vec3 0.93 0.28 0.92, specularColor = Vec3 0.94 0.30 0.93,
            shininess = 0, OBJECT_MATERIAL.tag = ''rubber''\<rparr>;
          glassMat = \<lparr>ambientColor = Vec3 0.7 0.7 0.7, ambientStrength = 0.1 * matMult,
            diffuseColor = Vec3 0.84 0.84 0.84, specularColor = Vec3 0.92 0.92 0.92,
            shininess = 32, OBJECT_MATERIAL.tag = ''glass''\<rparr>;
          brickMat = \<lparr>ambientColor = Vec3 0.8 0.8 0.8, ambientStrength = 0.2 * matMult,
            diffuseColor = Vec3 0.84 0.84 0.84, specularColor = Vec3 0.92 0.92 0.92,
            shininess = 0.1, OBJECT_MATERIAL.tag = ''brick''\<rparr>;
          paperMat = \<lparr>ambientColor = Vec3 0.8 0.8 0.8, ambientStrength = 0.3 * matMult,
            diffuseColor = Vec3 0.84 0.84 0.84, specularColor = Vec3 0.92 0.92 0.92,
            shininess = 0.1, OBJECT_MATERIAL.tag = ''paper''\<rparr>;
          topBookCoverMat = \<lparr>ambientColor = Vec3 0.3 0.3 0.3, ambientStrength = 0.5 * matMult,
            diffuseColor = Vec3 0 0.3 0.3, specularColor = Vec3 0.3 0.3 0.3,
            shininess = 0.4, OBJECT_MATERIAL.tag = ''top_cover''\<rparr>;
          bottomBookCoverMat = \<lparr>ambientColor = Vec3 0.84 0.726 0.012,
            ambientStrength = 0.5 * matMult,
            diffuseColor = Vec3 0.89 0.73 0.02, specularColor = Vec3 0.895 0.73 0.03,
            shininess = 0.4, OBJECT_MATERIAL.tag = ''bottom_cover''\<rparr>
      in s\<lparr>m_objectMaterials := m_objectMaterials s @
           [woodMat, plasticMat, rubberMat, glassMat, brickMat, paperMat,
            topBookCoverMat, bottomBookCoverMat]\<rparr>)"

text \<open>
  The object builders. Each is the sequence of calls of its body, with the values its
  locals hold at each call; \<open>material\<close> is handed on to \<open>SetShaderMaterial\<close>.
\<close>

definition MakeDesk :: "OBJECT_MATERIAL \<Rightarrow> SceneManager \<Rightarrow> fault + SceneManager"
where
  "MakeDesk material =
     sequence
      [SetTransformations (Vec3 30 1 10) 0 0 0 (Vec3 0 0 0),
       SetShaderTexture ''desk'',
       SetTextureUVScale 2 2,
       SetShaderMaterial material ''wood'',
       m_basicMeshes DrawPlaneMesh]"

definition MakeBackWall :: "OBJECT_MATERIAL \<Rightarrow> SceneManager \<Rightarrow> fault + SceneManager"
where
  "MakeBackWall material =
     sequence
      [SetTransformations (Vec3 30 1 10) 90 0 0 (Vec3 0 10 (- 10)),
       SetShaderTexture ''brick'',
       SetTextureUVScale 7 3,
       SetShaderMaterial material ''brick'',
       m_basicMeshes DrawPlaneMesh]"

definition MakeDeskStand :: "OBJECT_MATERIAL \<Rightarrow> SceneManager \<Rightarrow> fault + SceneManager"
where
  "MakeDeskStand material =
     sequence
      [SetTransformations (Vec3 14 1 4) 0 0 0 (Vec3 0 2 (- 6)),
       SetShaderTexture ''desk'',
       SetTextureUVScale 1 1,
       SetShaderMaterial material ''wood'',
       m_basicMeshes DrawBoxMesh,
       SetTransformations (Vec3 1 2 4) 0 0 0 (Vec3 6.5 1 (- 6)),
       SetShaderTexture ''desk'',
       SetTextureUVScale 1 1,
       SetShaderMaterial material ''wood'',
       m_basicMeshes DrawBoxMesh,
       SetTransformations (Vec3 1 2 4) 0 0 0 (Vec3 (- 6.5) 1 (- 6)),
       SetShaderTexture ''desk'',
       SetTextureUVScale 1 1,
       SetShaderMaterial material ''wood'',
       m_basicMeshes DrawBoxMesh]"

definition MakeMug :: "OBJECT_MATERIAL \<Rightarrow> SceneManager \<Rightarrow> fault + SceneManager"
where
  "MakeMug material =
     sequence
      [SetTransformations (Vec3 0.125 0.75 0.125) 0 0 90 (Vec3 1.5 4.1 (- 5)),
       SetShaderTexture ''plastic'',
       SetShaderMaterial material ''glass'',
       m_basicMeshes DrawCylinderMesh,
       SetTransformations (Vec3 0.125 0.75 0.125) 0 0 90 (Vec3 1.25 3.1 (- 5)),
       m_basicMeshes DrawCylinderMesh,
       SetTransformations (Vec3 0.125 1.3 0.125) 0 0 165.86 (Vec3 1.5 4.2 (- 5)),
       m_basicMeshes DrawCylinderMesh,
       SetTransformations (Vec3 1 2 1) 0 0 180 (Vec3 0 4.5 (- 5)),
       m_basicMeshes DrawTaperedCylinderMesh]"

definition MakeBooks :: "OBJECT_MATERIAL \<Rightarrow> SceneManager \<Rightarrow> fault + SceneManager"
where
  "MakeBooks material =
     sequence
      [SetTransformations (Vec3 3 1 4) 0 20 0 (Vec3 (- 2.5) 0.5 0),
       SetShaderMaterial material ''paper'',
       m_basicMeshes DrawBoxMesh,
       SetTransformations (Vec3 1.5 0.5 2) 0 20 0 (Vec3 (- 2.5) 1.001 0),
       SetShaderMaterial material ''bottom_cover'',
       m_basicMeshes DrawPlaneMesh,
       SetTransformations (Vec3 0.5 1 2) 0 20 90 (Vec3 (- 3.93) 0.5 0.495),
       SetShaderMaterial material ''bottom_cover'',
       m_basicMeshes DrawPlaneMesh,
       SetTransformations (Vec3 2.6 1 3.467) 0 (- 20) 0 (Vec3 (- 2.5) 1.5 0),
       SetShaderMaterial material ''paper'',
       m_basicMeshes DrawBoxMesh,
       SetTransformations (Vec3 1.35 0.5 1.75) 0 (- 20) 0 (Vec3 (- 2.5) 2.001 0),
       SetShaderMaterial material ''top_cover'',
       m_basicMeshes DrawPlaneMesh,
       SetTransformations (Vec3 0.5 1 1.75) 0 (- 20) 90 (Vec3 (- 3.73) 1.5 (- 0.535)),
       SetShaderMaterial material ''top_cover'',
       m_basicMeshes DrawPlaneMesh,
       SetTransformations (Vec3 1.35 0.5 1.75) 0 (- 20) 0 (Vec3 (- 2.5) 0.999 0),
       SetShaderMaterial material ''top_cover'',
       m_basicMeshes DrawPlaneMesh]"

definition MakeLamp :: "OBJECT_MATERIAL \<Rightarrow> SceneManager \<Rightarrow> fault + SceneManager"
where
  "MakeLamp material =
     (let offset = [4, 0, - 1] :: real list in
      sequence
       [SetTransformations (Vec3 1.5 0.35 1.5) 0 0 0
          (Vec3 (- 0.65 + offset ! 0) (0 + offset ! 1) (0 + offset ! 2)),
        SetShaderTexture ''plastic'',
        SetShaderMaterial material ''plastic'',
        m_basicMeshes DrawCylinderMesh,
        SetTransformations (Vec3 0.25 3.75 0.25) 0 0 60
          (Vec3 (1 + offset ! 0) (3.3 + offset ! 1) (0 + offset ! 2)),
        SetShaderMaterial material ''plastic'',
        m_basicMeshes DrawBoxMesh,
        SetTransformations (Vec3 0.25 4 0.25) 0 0 (- 60)
          (Vec3 (1 + offset ! 0) (1.3 + offset ! 1) (0 + offset ! 2)),
        SetShaderMaterial material ''plastic'',
        m_basicMeshes DrawBoxMesh,
        SetTransformations (Vec3 1.25 2 1.25) (- 15) 0 (- 30)
          (Vec3 (- 1 + offset ! 0) (3 + offset ! 1) (0.25 + offset ! 2)),
        SetShaderMaterial material ''plastic'',
        m_basicMeshes DrawConeMesh])"

definition MakePenHolder :: "OBJECT_MATERIAL \<Rightarrow> SceneManager \<Rightarrow> fault + SceneManager"
where
  "MakePenHolder material =
     (let offset = [- 3, 3.5, - 6] :: real list in
      sequence
       [SetTransformations (Vec3 1.5 2 0.25) 0 0 0
          (Vec3 (0 + offset ! 0) (0 + offset ! 1) (0.6 + offset ! 2)),
        SetShaderTexture ''wood'',
        SetTextureUVScale 0.25 0.25,
        SetShaderMaterial material ''wood'',
        m_basicMeshes DrawBoxMesh,
        SetTransformations (Vec3 0.25 2 1.4) 0 0 0
          (Vec3 (0.6 + offset ! 0) (0 + offset ! 1) (0 + offset ! 2)),
        SetShaderTexture ''wood'',
        SetTextureUVScale 0.25 0.25,
        SetShaderMaterial material ''wood'',
        m_basicMeshes DrawBoxMesh,
        SetTransformations (Vec3 0.25 2 1.4) 0 0 0
          (Vec3 (- 0.6 + offset ! 0) (0 + offset ! 1) (0 + offset ! 2)),
        SetShaderTexture ''wood'',
        SetTextureUVScale 0.25 0.25,
        SetShaderMaterial material ''wood'',
        m_basicMeshes DrawBoxMesh,
        SetTransformations (Vec3 1.5 2 0.25) 0 0 0
          (Vec3 (0 + offset ! 0) (0 + offset ! 1) (- 0.6 + offset ! 2)),
        SetShaderTexture ''wood'',
        SetTextureUVScale 0.25 0.25,
        SetShaderMaterial material ''wood'',
        m_basicMeshes DrawBoxMesh,
        SetTransformations (Vec3 0.125 3 0.125) 0 0 15
          (Vec3 (0.1 + offset ! 0) (- 0.5 + offset ! 1) (0 + offset ! 2)),
        SetShaderTexture ''plastic'',
        SetShaderMaterial material ''wood'',
        m_basicMeshes DrawCylinderMesh,
        SetTransformations (Vec3 0.125 3 0.125) 20 0 (- 10)
          (Vec3 (0.1 + offset ! 0) (- 0.5 + offset ! 1) (- 0.5 + offset ! 2)),
        SetShaderMaterial material ''wood'',
        m_basicMeshes DrawCylinderMesh,
        SetTransformations (Vec3 0.12 0.2 0.12) 0 0 15
          (Vec3 (- 0.66 + offset ! 0) (2.35 + offset ! 1) (0 + offset ! 2)),
        SetShaderMaterial material ''rubber'',
        m_basicMeshes DrawCylinderMesh,
        SetTransformations (Vec3 0.12 0.2 0.12) 20 0 (- 10)
          (Vec3 (0.61 + offset ! 0) (2.21 + offset ! 1) (0.49 + offset ! 2)),
        SetShaderMaterial material ''rubber'',
        m_basicMeshes DrawCylinderMesh])"

definition RenderScene :: "OBJECT_MATERIAL \<Rightarrow> SceneManager \<Rightarrow> fault + SceneManager" where
  "RenderScene material =
     sequence
      [MakeDesk material, MakeBackWall material, MakeDeskStand material, MakeMug material,
       MakeBooks material, MakeLamp material, MakePenHolder material]"

definition object_builders ::
  "OBJECT_MATERIAL \<Rightarrow> (SceneManager \<Rightarrow> fault + SceneManager) list"
where
  "object_builders material =
     [MakeDesk material, MakeBackWall material, MakeDeskStand material, MakeMug material,
      MakeBooks material, MakeLamp material, MakePenHolder material]"

text \<open>What a run from \<open>s\<close> to \<open>s'\<close> added to the record of calls.\<close>

definition emitted :: "SceneManager \<Rightarrow> SceneManager \<Rightarrow> call list" where
  "emitted s s' = drop (length (effects s)) (effects s')"

section \<open>Vocabulary of the properties\<close>

text \<open>
  What \<^verbatim>\<open>FindMaterial\<close> copies on a match: the five lighting coefficients of
  \<open>src\<close> into the caller's object, whose tag stays.
\<close>

definition copy_coefficients :: "OBJECT_MATERIAL \<Rightarrow> OBJECT_MATERIAL \<Rightarrow> OBJECT_MATERIAL" where
  "copy_coefficients src material =
     material\<lparr>ambientColor := ambientColor src,
               ambientStrength := ambientStrength src,
               diffuseColor := diffuseColor src,
               specularColor := specularColor src,
               shininess := shininess src\<rparr>"

definition coefficients :: "OBJECT_MATERIAL \<Rightarrow> vec3 \<times> real \<times> vec3 \<times> vec3 \<times> real" where
  "coefficients m =
     (ambientColor m, ambientStrength m, diffuseColor m, specularColor m, shininess m)"

text \<open>The five \<^verbatim>\<open>material.*\<close> uniform writes for the values of \<open>m\<close>.\<close>

definition material_writes :: "OBJECT_MATERIAL \<Rightarrow> call list" where
  "material_writes m =
     [setVec3Value ''material.ambientColor'' (ambientColor m),
      setFloatValue ''material.ambientStrength'' (ambientStrength m),
      setVec3Value ''material.diffuseColor'' (diffuseColor m),
      setVec3Value ''material.specularColor'' (specularColor m),
      setFloatValue ''material.shininess'' (shininess m)]"

text \<open>A material tagged \<^verbatim>\<open>"paper"\<close> whose coefficients are all \<open>k\<close>, for examples.\<close>

definition paper_material :: "real \<Rightarrow> OBJECT_MATERIAL" where
  "paper_material k =
     \<lparr>ambientColor = Vec3 k k k, ambientStrength = k, diffuseColor = Vec3 k k k,
      specularColor = Vec3 k k k, shininess = k, OBJECT_MATERIAL.tag = ''paper''\<rparr>"

text \<open>
  The states the texture registry reaches: the constructor's, and from a reached state
  the one a call of \<^verbatim>\<open>CreateGLTexture\<close> returns, whether it reports success or
  failure. \<open>tags\<close> lists the tags of the successful loads, in order.
\<close>

inductive loaded :: "string list \<Rightarrow> SceneManager \<Rightarrow> bool" where
  constructed: "loaded [] (SceneManager_ctor pShaderManager)"
| load_succeeded:
    "loaded tags s \<Longrightarrow> CreateGLTexture decoded textureID filename t s = Inr (True, s')
      \<Longrightarrow> loaded (tags @ [t]) s'"
| load_failed:
    "loaded tags s \<Longrightarrow> CreateGLTexture decoded textureID filename t s = Inr (False, s')
      \<Longrightarrow> loaded tags s'"

text \<open>
  The registry holds \<open>tags\<close>: the array has its 16 elements, the counter is the number
  of tags, and the occupied slots carry the tags in order.
\<close>

definition registry_holds :: "string list \<Rightarrow> SceneManager \<Rightarrow> bool" where
  "registry_holds tags s \<longleftrightarrow>
     length (m_textureIDs s) = 16 \<and> m_loadedTextures s = int (length tags) \<and>
     length tags \<le> 16 \<and>
     map TEXTURE_INFO.tag (take (length tags) (m_textureIDs s)) = tags"

text \<open>Sixteen distinct tags, for examples.\<close>

definition sixteen_tags :: "string list" where
  "sixteen_tags =
     [''t01'', ''t02'', ''t03'', ''t04'', ''t05'', ''t06'', ''t07'', ''t08'',
      ''t09'', ''t10'', ''t11'', ''t12'', ''t13'', ''t14'', ''t15'', ''t16'']"

text \<open>
  The composition as the specification words it:
  \<open>M = Translation(position) \<cdot> RotationX(rotX) \<cdot> RotationY(rotY) \<cdot> RotationZ(rotZ) \<cdot> Scale(scale)\<close>,
  with the angles given in degrees and turned into radians. The five factors are the
  textbook matrices (stored by columns), independent of GLM's axis-angle builder.
\<close>

definition Translation :: "vec3 \<Rightarrow> mat4" where
  "Translation p = (case p of Vec3 x y z \<Rightarrow>
     Mat4 (Vec4 1 0 0 0) (Vec4 0 1 0 0) (Vec4 0 0 1 0) (Vec4 x y z 1))"

definition RotationX :: "real \<Rightarrow> mat4" where
  "RotationX a =
     Mat4 (Vec4 1 0 0 0) (Vec4 0 (cos a) (sin a) 0) (Vec4 0 (- sin a) (cos a) 0) (Vec4 0 0 0 1)"

definition RotationY :: "real \<Rightarrow> mat4" where
  "RotationY a =
     Mat4 (Vec4 (cos a) 0 (- sin a) 0) (Vec4 0 1 0 0) (Vec4 (sin a) 0 (cos a) 0) (Vec4 0 0 0 1)"

definition RotationZ :: "real \<Rightarrow> mat4" where
  "RotationZ a =
     Mat4 (Vec4 (cos a) (sin a) 0 0) (Vec4 (- sin a) (cos a) 0 0) (Vec4 0 0 1 0) (Vec4 0 0 0 1)"

definition Scale :: "vec3 \<Rightarrow> mat4" where
  "Scale k = (case k of Vec3 x y z \<Rightarrow>
     Mat4 (Vec4 x 0 0 0) (Vec4 0 y 0 0) (Vec4 0 0 z 0) (Vec4 0 0 0 1))"

definition spec_model_matrix :: "vec3 \<Rightarrow> real \<Rightarrow> real \<Rightarrow> real \<Rightarrow> vec3 \<Rightarrow> mat4" where
  "spec_model_matrix scale rotX rotY rotZ position =
     mat4_mul (Translation position)
       (mat4_mul (RotationX (rotX * pi / 180))
          (mat4_mul (RotationY (rotY * pi / 180))
             (mat4_mul (RotationZ (rotZ * pi / 180)) (Scale scale))))"

text \<open>Two vectors agree within \<open>eps\<close> in every component.\<close>

fun within_tolerance :: "real \<Rightarrow> vec4 \<Rightarrow> vec4 \<Rightarrow> bool" where
  "within_tolerance eps (Vec4 x y z w) (Vec4 x' y' z' w') \<longleftrightarrow>
     \<bar>x - x'\<bar> \<le> eps \<and> \<bar>y - y'\<bar> \<le> eps \<and> \<bar>z - z'\<bar> \<le> eps \<and> \<bar>w - w'\<bar> \<le> eps"

text \<open>
  A command only appends to the record of calls, and what it appends does not depend
  on what was recorded before.
\<close>

definition appends :: "(SceneManager \<Rightarrow> fault + SceneManager) \<Rightarrow> bool" where
  "appends c \<longleftrightarrow>
     (\<forall>s s'. c s = Inr s' \<longrightarrow>
        (\<exists>w. s' = emit w s \<and> (\<forall>e. c (s\<lparr>effects := e\<rparr>) = Inr (s\<lparr>effects := e @ w\<rparr>))))"

text \<open>The material tags the object builders pass to \<^verbatim>\<open>SetShaderMaterial\<close>.\<close>

definition builder_material_tags :: "string list" where
  "builder_material_tags =
     [''wood'', ''brick'', ''glass'', ''paper'', ''bottom_cover'', ''top_cover'', ''plastic'',
      ''rubber'']"

text \<open>
  Every material lookup of a builder is settled without the uninitialised local: no
  material is registered (the lookup is skipped), or every tag a builder uses is
  registered (the lookup overwrites the local's coefficients).
\<close>

definition materials_resolved :: "SceneManager \<Rightarrow> bool" where
  "materials_resolved s \<longleftrightarrow>
     m_objectMaterials s = [] \<or>
     set builder_material_tags \<subseteq> set (map OBJECT_MATERIAL.tag (m_objectMaterials s))"

text \<open>
  Two commands agree on \<open>s\<close>: the first only appends, and the second returns what the
  first returns from \<open>s\<close> whatever calls were recorded before.
\<close>

definition agree_on ::
  "SceneManager \<Rightarrow> (SceneManager \<Rightarrow> fault + SceneManager) \<Rightarrow>
     (SceneManager \<Rightarrow> fault + SceneManager) \<Rightarrow> bool"
where
  "agree_on s c c' \<longleftrightarrow>
     appends c \<and> (\<forall>e. c' (s\<lparr>effects := e\<rparr>) = c (s\<lparr>effects := e\<rparr>))"

section \<open>Material lookup\<close>

lemma FindMaterial_loop_found [simp]: "FindMaterial_loop ms t material index True = material"
  by (simp add: FindMaterial_loop.simps)

lemma FindMaterial_loop_end [simp]:
  "length ms \<le> index \<Longrightarrow> FindMaterial_loop ms t material index bFound = material"
  by (simp add: FindMaterial_loop.simps)

text \<open>The scan stops at the first entry carrying the tag and copies from it.\<close>

lemma FindMaterial_loop_first:
  assumes "index \<le> length pre" and "t \<notin> OBJECT_MATERIAL.tag ` set (drop index pre)"
    and "OBJECT_MATERIAL.tag m = t"
  shows "FindMaterial_loop (pre @ m # post) t material index False = copy_coefficients m material"
  using assms
proof (induction "length pre - index" arbitrary: index)
  case 0
  then have "index = length pre" by simp
  then show ?case
    using 0 by (subst FindMaterial_loop.simps) (simp add: copy_coefficients_def)
next
  case (Suc k)
  then have lt: "index < length pre" by simp
  then have "drop index pre = pre ! index # drop (Suc index) pre"
    by (simp add: Cons_nth_drop_Suc)
  with Suc.prems have ne: "OBJECT_MATERIAL.tag (pre ! index) \<noteq> t"
    and rest: "t \<notin> OBJECT_MATERIAL.tag ` set (drop (Suc index) pre)" by auto
  have "FindMaterial_loop (pre @ m # post) t material (Suc index) False =
      copy_coefficients m material"
    using Suc.hyps(1)[of "Suc index"] Suc.hyps(2) lt rest Suc.prems(3) by simp
  then show ?case
    using lt ne by (subst FindMaterial_loop.simps) (simp add: nth_append)
qed

text \<open>A scan that meets no entry with the tag leaves the caller's object as it was.\<close>

lemma FindMaterial_loop_miss:
  assumes "t \<notin> OBJECT_MATERIAL.tag ` set (drop index ms)"
  shows "FindMaterial_loop ms t material index False = material"
  using assms
proof (induction "length ms - index" arbitrary: index)
  case 0
  then show ?case by simp
next
  case (Suc k)
  then have lt: "index < length ms" by simp
  then have "drop index ms = ms ! index # drop (Suc index) ms"
    by (simp add: Cons_nth_drop_Suc)
  with Suc.prems have ne: "OBJECT_MATERIAL.tag (ms ! index) \<noteq> t"
    and rest: "t \<notin> OBJECT_MATERIAL.tag ` set (drop (Suc index) ms)" by auto
  have "FindMaterial_loop ms t material (Suc index) False = material"
    using Suc.hyps(1)[of "Suc index"] Suc.hyps(2) lt rest by simp
  then show ?case
    using lt ne by (subst FindMaterial_loop.simps) simp
qed

lemma coefficients_copy [simp]:
  "coefficients (copy_coefficients src material) = coefficients src"
  by (simp add: coefficients_def copy_coefficients_def)

lemma material_tags_DefineObjectMaterials:
  "map OBJECT_MATERIAL.tag (m_objectMaterials (DefineObjectMaterials (SceneManager_ctor p))) =
     [''wood'', ''plastic'', ''rubber'', ''glass'', ''brick'', ''paper'', ''top_cover'',
      ''bottom_cover'']"
  by (simp add: DefineObjectMaterials_def SceneManager_ctor_def Let_def)

lemma FindMaterial_nonempty_miss:
  assumes "m_objectMaterials s \<noteq> []"
    and "t \<notin> set (map OBJECT_MATERIAL.tag (m_objectMaterials s))"
  shows "FindMaterial s t material = (True, material)"
  using assms by (simp add: FindMaterial_def FindMaterial_loop_miss)

text \<open>
  C2. The claim: \<^verbatim>\<open>FindMaterial\<close> reports found exactly when some registered material
  carries the tag. The method ends in \<^verbatim>\<open>return(true)\<close>, not in \<^verbatim>\<open>return(bFound)\<close>:
  on the eight materials of \<^verbatim>\<open>DefineObjectMaterials\<close>, none of which is tagged
  \<^verbatim>\<open>"nonexistent"\<close>, it returns true and leaves the caller's object untouched.
\<close>

theorem FindMaterial_miss_returns_true:
  "FindMaterial (DefineObjectMaterials (SceneManager_ctor Object)) ''nonexistent'' material =
     (True, material)"
proof (rule FindMaterial_nonempty_miss)
  show "m_objectMaterials (DefineObjectMaterials (SceneManager_ctor Object)) \<noteq> []"
    by (simp add: DefineObjectMaterials_def Let_def)
  show "''nonexistent'' \<notin> set (map OBJECT_MATERIAL.tag
      (m_objectMaterials (DefineObjectMaterials (SceneManager_ctor Object))))"
    by (simp only: material_tags_DefineObjectMaterials) simp
qed

lemma SetShaderMaterial_nonempty_miss:
  assumes "m_objectMaterials s \<noteq> []"
    and "t \<notin> set (map OBJECT_MATERIAL.tag (m_objectMaterials s))"
    and "m_pShaderManager s = Object"
  shows "SetShaderMaterial material t s = Inr (emit (material_writes material) s)"
  using assms
  by (simp add: SetShaderMaterial_def FindMaterial_nonempty_miss material_writes_def)

text \<open>
  C3. The claim: for a tag that is not registered, \<^verbatim>\<open>SetShaderMaterial\<close> writes no
  uniform. With the eight materials registered and a shader manager present, the call
  for \<^verbatim>\<open>"nonexistent"\<close> makes all five \<^verbatim>\<open>material.*\<close> writes, with whatever the
  uninitialised local \<open>material\<close> holds: \<^verbatim>\<open>FindMaterial\<close> returned true (C2).
\<close>

theorem SetShaderMaterial_miss_writes:
  "SetShaderMaterial material ''nonexistent'' (DefineObjectMaterials (SceneManager_ctor Object)) =
     Inr (emit (material_writes material) (DefineObjectMaterials (SceneManager_ctor Object)))"
proof (rule SetShaderMaterial_nonempty_miss)
  show "m_objectMaterials (DefineObjectMaterials (SceneManager_ctor Object)) \<noteq> []"
    by (simp add: DefineObjectMaterials_def Let_def)
  show "''nonexistent'' \<notin> set (map OBJECT_MATERIAL.tag
      (m_objectMaterials (DefineObjectMaterials (SceneManager_ctor Object))))"
    by (simp only: material_tags_DefineObjectMaterials) simp
  show "m_pShaderManager (DefineObjectMaterials (SceneManager_ctor Object)) = Object"
    by (simp add: DefineObjectMaterials_def SceneManager_ctor_def Let_def)
qed

lemma SetShaderMaterial_null_nonempty:
  assumes "m_objectMaterials s \<noteq> []" and "m_pShaderManager s = NULL"
  shows "SetShaderMaterial material t s = Inl NullPointerDereference"
  using assms by (simp add: SetShaderMaterial_def FindMaterial_def)

text \<open>
  C4. The claim: with a null shader manager every write operation of the composers
  does nothing and does not crash. \<^verbatim>\<open>SetTransformations\<close>, \<^verbatim>\<open>SetShaderColor\<close>,
  \<^verbatim>\<open>SetShaderTexture\<close> and \<^verbatim>\<open>SetTextureUVScale\<close> test the pointer and return with
  the state unchanged; \<^verbatim>\<open>SetShaderMaterial\<close> has no such test and, with materials
  registered, calls through the null pointer.
\<close>

theorem null_shader_SetShaderMaterial_faults:
  "SetTransformations scaleXYZ X Y Z positionXYZ (DefineObjectMaterials (SceneManager_ctor NULL)) =
     Inr (DefineObjectMaterials (SceneManager_ctor NULL)) \<and>
   SetShaderColor r g b a (DefineObjectMaterials (SceneManager_ctor NULL)) =
     Inr (DefineObjectMaterials (SceneManager_ctor NULL)) \<and>
   SetShaderTexture textureTag (DefineObjectMaterials (SceneManager_ctor NULL)) =
     Inr (DefineObjectMaterials (SceneManager_ctor NULL)) \<and>
   SetTextureUVScale u v (DefineObjectMaterials (SceneManager_ctor NULL)) =
     Inr (DefineObjectMaterials (SceneManager_ctor NULL)) \<and>
   SetShaderMaterial material ''wood'' (DefineObjectMaterials (SceneManager_ctor NULL)) =
     Inl NullPointerDereference"
proof -
  have null: "m_pShaderManager (DefineObjectMaterials (SceneManager_ctor NULL)) = NULL"
    by (simp add: DefineObjectMaterials_def SceneManager_ctor_def Let_def)
  have ne: "m_objectMaterials (DefineObjectMaterials (SceneManager_ctor NULL)) \<noteq> []"
    by (simp add: DefineObjectMaterials_def Let_def)
  show ?thesis
    using SetShaderMaterial_null_nonempty [OF ne null]
    by (simp add: null SetTransformations_def SetShaderColor_def SetShaderTexture_def
        SetTextureUVScale_def)
qed

text \<open>
  C8. When two materials are registered under one tag, the first of them being the
  first entry with that tag, every \<^verbatim>\<open>FindMaterial\<close> for the tag returns the
  coefficients of the first; where the two differ, never those of the second.
\<close>

theorem FindMaterial_first_match:
  assumes "m_objectMaterials s = pre @ first # mid @ second # post"
    and "OBJECT_MATERIAL.tag first = t" and "OBJECT_MATERIAL.tag second = t"
    and "t \<notin> OBJECT_MATERIAL.tag ` set pre"
  shows "FindMaterial s t material = (True, copy_coefficients first material) \<and>
         coefficients (snd (FindMaterial s t material)) = coefficients first \<and>
         (coefficients first \<noteq> coefficients second \<longrightarrow>
            coefficients (snd (FindMaterial s t material)) \<noteq> coefficients second)"
proof -
  have "FindMaterial_loop (pre @ first # (mid @ second # post)) t material 0 False =
          copy_coefficients first material"
    using assms(2,4) by (intro FindMaterial_loop_first) simp_all
  then have "FindMaterial s t material = (True, copy_coefficients first material)"
    using assms(1) by (simp add: FindMaterial_def)
  then show ?thesis by simp
qed

theorem FindMaterial_first_match_witness:
  "FindMaterial
      ((SceneManager_ctor Object)\<lparr>m_objectMaterials := [paper_material 1, paper_material 2]\<rparr>)
      ''paper'' (paper_material 0) =
     (True, copy_coefficients (paper_material 1) (paper_material 0)) \<and>
   coefficients (snd (FindMaterial
      ((SceneManager_ctor Object)\<lparr>m_objectMaterials := [paper_material 1, paper_material 2]\<rparr>)
      ''paper'' (paper_material 0))) = coefficients (paper_material 1) \<and>
   coefficients (paper_material 1) \<noteq> coefficients (paper_material 2) \<and>
   coefficients (snd (FindMaterial
      ((SceneManager_ctor Object)\<lparr>m_objectMaterials := [paper_material 1, paper_material 2]\<rparr>)
      ''paper'' (paper_material 0))) \<noteq> coefficients (paper_material 2)"
proof -
  have ne: "coefficients (paper_material 1) \<noteq> coefficients (paper_material 2)"
    by (simp add: coefficients_def paper_material_def)
  have reg: "m_objectMaterials
      ((SceneManager_ctor Object)\<lparr>m_objectMaterials := [paper_material 1, paper_material 2]\<rparr>) =
      [] @ paper_material 1 # [] @ paper_material 2 # []"
    by simp
  have tags: "OBJECT_MATERIAL.tag (paper_material 1) = ''paper''"
    "OBJECT_MATERIAL.tag (paper_material 2) = ''paper''"
    by (simp_all add: paper_material_def)
  have none: "''paper'' \<notin> OBJECT_MATERIAL.tag ` set []" by simp
  show ?thesis
    using FindMaterial_first_match [OF reg tags none, of "paper_material 0"] ne by simp
qed

text \<open>
  C10. With no material registered, \<^verbatim>\<open>SetShaderMaterial\<close> returns at once for every
  tag: the state, and with it the record of calls, is unchanged and the shader-manager
  pointer is not used, so the call is safe when that pointer is null.
\<close>

theorem SetShaderMaterial_empty_registry:
  assumes "m_objectMaterials s = []"
  shows "SetShaderMaterial material materialTag s = Inr s"
  using assms by (simp add: SetShaderMaterial_def)

theorem SetShaderMaterial_empty_registry_witness:
  "m_objectMaterials (SceneManager_ctor NULL) = [] \<and>
   SetShaderMaterial (paper_material 0) ''wood'' (SceneManager_ctor NULL) =
     Inr (SceneManager_ctor NULL)"
proof -
  have e: "m_objectMaterials (SceneManager_ctor NULL) = []"
    by (simp add: SceneManager_ctor_def)
  show ?thesis
    using SetShaderMaterial_empty_registry [OF e, of "paper_material 0" "''wood''"] e by simp
qed

section \<open>Texture registry: loading, lookup and teardown\<close>

lemma registry_holds_ctor: "registry_holds [] (SceneManager_ctor p)"
  by (simp add: registry_holds_def SceneManager_ctor_def)

lemma emit_fields [simp]:
  "m_textureIDs (emit cs s) = m_textureIDs s"
  "m_loadedTextures (emit cs s) = m_loadedTextures s"
  "m_objectMaterials (emit cs s) = m_objectMaterials s"
  "m_pShaderManager (emit cs s) = m_pShaderManager s"
  "effects (emit cs s) = effects s @ cs"
  by (simp_all add: emit_def)

lemma register_ok:
  assumes "registry_holds tags s" and "CreateGLTexture_register textureID t s = Inr (b, s')"
  shows "b = True \<and> registry_holds (tags @ [t]) s'"
proof -
  let ?n = "length tags"
  from assms(1) have len: "length (m_textureIDs s) = 16" and n: "m_loadedTextures s = int ?n"
    and tg: "map TEXTURE_INFO.tag (take ?n (m_textureIDs s)) = tags"
    by (simp_all add: registry_holds_def)
  from assms(2) n len have lt: "?n < 16"
    by (auto simp: CreateGLTexture_register_def Let_def split: if_splits)
  from assms(2) n len lt have b: "b = True"
    and s': "s' = (emit [glGenerateMipmap, stbi_image_free, glBindTexture 0] s)
        \<lparr>m_textureIDs := (m_textureIDs s)
            [?n := (m_textureIDs s ! ?n)\<lparr>ID := textureID, TEXTURE_INFO.tag := t\<rparr>],
         m_loadedTextures := int ?n + 1\<rparr>"
    by (auto simp: CreateGLTexture_register_def Let_def split: if_splits)
  let ?e = "(m_textureIDs s ! ?n)\<lparr>ID := textureID, TEXTURE_INFO.tag := t\<rparr>"
  have "take (Suc ?n) ((m_textureIDs s)[?n := ?e]) = take ?n (m_textureIDs s) @ [?e]"
    using lt len by (simp add: take_Suc_conv_app_nth)
  then have "map TEXTURE_INFO.tag (take (Suc ?n) ((m_textureIDs s)[?n := ?e])) = tags @ [t]"
    using tg by simp
  then show ?thesis
    using b s' lt len by (simp add: registry_holds_def)
qed

lemma registry_holds_emit [simp]: "registry_holds tags (emit cs s) = registry_holds tags s"
  by (simp add: registry_holds_def)

lemma CreateGLTexture_registry:
  assumes "registry_holds tags s"
    and "CreateGLTexture decoded textureID filename t s = Inr (b, s')"
  shows "registry_holds (if b then tags @ [t] else tags) s'"
proof (cases decoded)
  case None
  with assms show ?thesis by (simp add: CreateGLTexture_def)
next
  case (Some img)
  obtain width height colorChannels where img: "img = (width, height, colorChannels)"
    by (cases img)
  show ?thesis
    using assms Some img
    by (auto simp: CreateGLTexture_def Let_def split: if_splits dest!: register_ok [rotated])
qed

lemma loaded_registry: "loaded tags s \<Longrightarrow> registry_holds tags s"
proof (induction rule: loaded.induct)
  case (constructed pShaderManager)
  show ?case by (rule registry_holds_ctor)
next
  case (load_succeeded tags s decoded textureID filename t s')
  then show ?case
    using CreateGLTexture_registry [of tags s decoded textureID filename t True s'] by simp
next
  case (load_failed tags s decoded textureID filename t s')
  then show ?case
    using CreateGLTexture_registry [of tags s decoded textureID filename t False s'] by simp
qed


lemma FindTextureSlot_loop_found [simp]:
  "FindTextureSlot_loop s t textureSlot index True = Inr textureSlot"
  by (simp add: FindTextureSlot_loop.simps)

lemma registry_holds_tag:
  assumes "registry_holds tags s" and "i < length tags"
  shows "TEXTURE_INFO.tag (m_textureIDs s ! i) = tags ! i"
proof -
  from assms(1) have eq: "map TEXTURE_INFO.tag (take (length tags) (m_textureIDs s)) = tags"
    and len: "length (m_textureIDs s) = 16" "length tags \<le> 16"
    by (simp_all add: registry_holds_def)
  have "map TEXTURE_INFO.tag (take (length tags) (m_textureIDs s)) ! i =
      TEXTURE_INFO.tag (m_textureIDs s ! i)"
    using len assms(2) by simp
  then show ?thesis by (simp only: eq)
qed

lemma FindTextureSlot_loop_step:
  assumes "registry_holds tags s" and "i < length tags"
  shows "FindTextureSlot_loop s t textureSlot (int i) False =
     (if tags ! i = t then Inr (int i)
      else FindTextureSlot_loop s t textureSlot (int (Suc i)) False)"
proof -
  from assms have "int i < m_loadedTextures s" and "int i < int (length (m_textureIDs s))"
    by (simp_all add: registry_holds_def)
  then show ?thesis
    using registry_holds_tag [OF assms]
    by (subst FindTextureSlot_loop.simps) (simp add: add.commute)
qed

lemma FindTextureSlot_loop_stop:
  assumes "registry_holds tags s" and "length tags \<le> i"
  shows "FindTextureSlot_loop s t textureSlot (int i) False = Inr textureSlot"
  using assms by (subst FindTextureSlot_loop.simps) (simp add: registry_holds_def)

lemma FindTextureSlot_loop_miss:
  assumes "registry_holds tags s" and "t \<notin> set (drop i tags)"
  shows "FindTextureSlot_loop s t textureSlot (int i) False = Inr textureSlot"
  using assms(2)
proof (induction "length tags - i" arbitrary: i)
  case 0
  then show ?case using assms(1) by (simp add: FindTextureSlot_loop_stop)
next
  case (Suc k)
  then have lt: "i < length tags" by simp
  then have "drop i tags = tags ! i # drop (Suc i) tags"
    by (simp add: Cons_nth_drop_Suc)
  with Suc.prems have ne: "tags ! i \<noteq> t" and rest: "t \<notin> set (drop (Suc i) tags)" by auto
  have "FindTextureSlot_loop s t textureSlot (int (Suc i)) False = Inr textureSlot"
    using Suc.hyps(1)[of "Suc i"] Suc.hyps(2) rest by simp
  then show ?case
    using FindTextureSlot_loop_step [OF assms(1) lt] ne by simp
qed

lemma FindTextureSlot_loop_hit:
  assumes "registry_holds tags s" and "j < length tags" and "tags ! j = t"
    and "i \<le> j" and "t \<notin> set (drop i (take j tags))"
  shows "FindTextureSlot_loop s t textureSlot (int i) False = Inr (int j)"
  using assms(4,5)
proof (induction "j - i" arbitrary: i)
  case 0
  then have "i = j" by simp
  then show ?case
    using FindTextureSlot_loop_step [OF assms(1), of j] assms(2,3) by simp
next
  case (Suc k)
  then have lt: "i < j" by simp
  then have "drop i (take j tags) = tags ! i # drop (Suc i) (take j tags)"
    using assms(2) by (simp add: Cons_nth_drop_Suc [symmetric])
  with Suc.prems have ne: "tags ! i \<noteq> t" and rest: "t \<notin> set (drop (Suc i) (take j tags))"
    by auto
  have "FindTextureSlot_loop s t textureSlot (int (Suc i)) False = Inr (int j)"
    using Suc.hyps(1)[of "Suc i"] Suc.hyps(2) lt rest by simp
  moreover have "i < length tags" using lt assms(2) by simp
  ultimately show ?case
    using FindTextureSlot_loop_step [OF assms(1), of i] ne by simp
qed

lemma CreateGLTexture_succeeds:
  assumes "registry_holds tags s" and "length tags < 16"
    and "colorChannels = 4 \<or> colorChannels = 3 \<and> filename \<noteq> None"
  shows "\<exists>s'. CreateGLTexture (Some (width, height, colorChannels)) textureID filename t s =
           Inr (True, s')"
  using assms
  by (auto simp: CreateGLTexture_def CreateGLTexture_register_def Let_def registry_holds_def)

lemma CreateGLTexture_full:
  assumes "registry_holds tags s" and "length tags = 16"
    and "colorChannels = 4 \<or> colorChannels = 3 \<and> filename \<noteq> None"
  shows "CreateGLTexture (Some (width, height, colorChannels)) textureID filename t s =
           Inl (ArrayIndexOutOfBounds 16)"
  using assms
  by (auto simp: CreateGLTexture_def CreateGLTexture_register_def Let_def registry_holds_def)

text \<open>
  C7. In every state the registry reaches by loads, with \<open>tags\<close> the tags of the
  successful loads in order, \<^verbatim>\<open>FindTextureSlot\<close> returns \<open>-1\<close> for a tag that was
  not loaded and, for a loaded tag, the index of its first occurrence. The example of
  the claim, \<^verbatim>\<open>"wood"\<close> then \<^verbatim>\<open>"brick"\<close> loaded into a new registry, is the
  theorem that follows this one: \<^verbatim>\<open>"brick"\<close> is found in slot 1 and \<^verbatim>\<open>"glass"\<close>
  gives \<open>-1\<close>.
\<close>

theorem FindTextureSlot_first_match:
  assumes "loaded tags s"
  shows "(t \<notin> set tags \<longrightarrow> FindTextureSlot s t = Inr (- 1)) \<and>
         (\<forall>i < length tags. tags ! i = t \<and> t \<notin> set (take i tags) \<longrightarrow>
            FindTextureSlot s t = Inr (int i))"
proof -
  have reg: "registry_holds tags s" using assms by (rule loaded_registry)
  have miss: "FindTextureSlot s t = Inr (- 1)" if "t \<notin> set tags"
    using FindTextureSlot_loop_miss [OF reg, of t 0] that by (simp add: FindTextureSlot_def)
  have hit: "FindTextureSlot s t = Inr (int i)"
    if "i < length tags" and "tags ! i = t" and "t \<notin> set (take i tags)" for i
    using FindTextureSlot_loop_hit [OF reg that(1,2), of 0] that(3)
    by (simp add: FindTextureSlot_def)
  show ?thesis using miss hit by blast
qed

theorem FindTextureSlot_first_match_witness:
  "\<exists>s1 s2.
     CreateGLTexture (Some (64, 64, 3)) 1 (Some ''wood.jpg'') ''wood'' (SceneManager_ctor Object) =
       Inr (True, s1) \<and>
     CreateGLTexture (Some (64, 64, 4)) 2 (Some ''brick.png'') ''brick'' s1 = Inr (True, s2) \<and>
     loaded [''wood'', ''brick''] s2 \<and>
     FindTextureSlot s2 ''brick'' = Inr 1 \<and>
     FindTextureSlot s2 ''glass'' = Inr (- 1)"
proof -
  obtain s1 where s1: "CreateGLTexture (Some (64, 64, 3)) 1 (Some ''wood.jpg'') ''wood''
      (SceneManager_ctor Object) = Inr (True, s1)"
    using CreateGLTexture_succeeds [where tags = "[]" and s = "SceneManager_ctor Object"
        and colorChannels = 3 and filename = "Some ''wood.jpg''" and width = 64 and height = 64
        and textureID = 1 and t = "''wood''"]
    by (auto simp: registry_holds_ctor)
  have l1: "loaded ([] @ [''wood'']) s1"
    using constructed s1 by (rule load_succeeded)
  obtain s2 where s2: "CreateGLTexture (Some (64, 64, 4)) 2 (Some ''brick.png'') ''brick'' s1 =
      Inr (True, s2)"
    using CreateGLTexture_succeeds [where tags = "[] @ [''wood'']" and s = s1
        and colorChannels = 4 and filename = "Some ''brick.png''" and width = 64 and height = 64
        and textureID = 2 and t = "''brick''"] loaded_registry [OF l1]
    by auto
  have "loaded (([] @ [''wood'']) @ [''brick'']) s2"
    using l1 s2 by (rule load_succeeded)
  then have l2: "loaded [''wood'', ''brick''] s2" by simp
  have brick: "FindTextureSlot s2 ''brick'' = Inr 1"
    using FindTextureSlot_first_match [OF l2, of "''brick''", THEN conjunct2, rule_format, of 1]
    by simp
  have glass: "FindTextureSlot s2 ''glass'' = Inr (- 1)"
    using FindTextureSlot_first_match [OF l2, of "''glass''", THEN conjunct1] by simp
  from s1 s2 l2 brick glass show ?thesis by blast
qed

lemma loaded_exists: "length tags \<le> 16 \<Longrightarrow> \<exists>s. loaded tags s \<and> m_pShaderManager s = p"
proof (induction tags rule: rev_induct)
  case Nil
  have "loaded [] (SceneManager_ctor p)" by (rule constructed)
  moreover have "m_pShaderManager (SceneManager_ctor p) = p" by (simp add: SceneManager_ctor_def)
  ultimately show ?case by blast
next
  case (snoc t tags)
  then obtain s where s: "loaded tags s" "m_pShaderManager s = p" by auto
  from snoc.prems have "length tags < 16" by simp
  with loaded_registry [OF s(1)]
  obtain s' where s': "CreateGLTexture (Some (64, 64, 4)) 0 None t s = Inr (True, s')"
    using CreateGLTexture_succeeds [of tags s 4 None 64 64 0 t] by auto
  then have "loaded (tags @ [t]) s'" using s(1) by (intro load_succeeded)
  moreover have "m_pShaderManager s' = p"
    using s' s(2)
    by (auto simp: CreateGLTexture_def CreateGLTexture_register_def Let_def split: if_splits)
  ultimately show ?case by blast
qed

text \<open>
  C1. The claim: with all 16 slots occupied, a further load fails and leaves the
  registry as it was. \<^verbatim>\<open>CreateGLTexture\<close> has no capacity test: after sixteen
  successful loads, the load of a decodable three-channel image stores into
  \<^verbatim>\<open>m_textureIDs[16]\<close>, one element past the array.
\<close>

theorem CreateGLTexture_seventeenth:
  "\<exists>s. loaded sixteen_tags s \<and> m_loadedTextures s = 16 \<and> length (m_textureIDs s) = 16 \<and>
       CreateGLTexture (Some (64, 64, 3)) 17 (Some ''./Source/seventeenth.jpg'') ''seventeenth'' s =
         Inl (ArrayIndexOutOfBounds 16)"
proof -
  have n: "length sixteen_tags = 16" by (simp add: sixteen_tags_def)
  then obtain s where s: "loaded sixteen_tags s"
    using loaded_exists [of sixteen_tags] by auto
  have reg: "registry_holds sixteen_tags s" using s by (rule loaded_registry)
  have "CreateGLTexture (Some (64, 64, 3)) 17 (Some ''./Source/seventeenth.jpg'') ''seventeenth'' s =
      Inl (ArrayIndexOutOfBounds 16)"
    using CreateGLTexture_full [OF reg n, of 3 "Some ''./Source/seventeenth.jpg''"] by simp
  moreover have "m_loadedTextures s = 16" "length (m_textureIDs s) = 16"
    using reg n by (simp_all add: registry_holds_def)
  ultimately show ?thesis using s by blast
qed

text \<open>
  Teardown from any state: the counter is unchanged and the calls added are one
  \<^verbatim>\<open>glGenTextures\<close> per occupied slot.
\<close>

lemma DestroyGLTextures_loop_effects:
  "DestroyGLTextures_loop textureNames i s = Inr s' \<Longrightarrow>
     m_loadedTextures s' = m_loadedTextures s \<and>
     effects s' = effects s @
       map (\<lambda>j. glGenTextures (textureNames j)) [i..m_loadedTextures s - 1]"
proof (induction textureNames i s rule: DestroyGLTextures_loop.induct)
  case (1 textureNames i s)
  show ?case
  proof (cases "i < m_loadedTextures s")
    case False
    with "1.prems" have "s' = s" by (simp add: DestroyGLTextures_loop.simps)
    with False show ?thesis by simp
  next
    case True
    with "1.prems" have inb: "0 \<le> i \<and> i < int (length (m_textureIDs s))"
      by (auto simp: DestroyGLTextures_loop.simps [of textureNames i s] split: if_splits)
    let ?s1 = "emit [glGenTextures (textureNames i)]
        (s\<lparr>m_textureIDs := (m_textureIDs s)
              [nat i := (m_textureIDs s ! nat i)\<lparr>ID := textureNames i\<rparr>]\<rparr>)"
    from "1.prems" True inb have rec: "DestroyGLTextures_loop textureNames (i + 1) ?s1 = Inr s'"
      by (simp add: DestroyGLTextures_loop.simps [of textureNames i s])
    from "1.IH" [OF True inb rec]
    have ih: "m_loadedTextures s' = m_loadedTextures s"
      "effects s' = effects s @ [glGenTextures (textureNames i)] @
         map (\<lambda>j. glGenTextures (textureNames j)) [i + 1..m_loadedTextures s - 1]"
      by simp_all
    have "[i..m_loadedTextures s - 1] = i # [i + 1..m_loadedTextures s - 1]"
      using True by (simp add: upto_rec1)
    with ih show ?thesis by simp
  qed
qed

lemma DestroyGLTextures_effects:
  assumes "DestroyGLTextures textureNames s = Inr s'"
  shows "m_loadedTextures s' = m_loadedTextures s"
    and "emitted s s' = map (\<lambda>j. glGenTextures (textureNames j)) [0..m_loadedTextures s - 1]"
  using DestroyGLTextures_loop_effects [of textureNames 0 s s'] assms
  by (simp_all add: DestroyGLTextures_def emitted_def)

text \<open>
  C5. The claim: teardown deletes the texture of every occupied slot and clears the
  occupancy. \<^verbatim>\<open>DestroyGLTextures\<close> calls \<^verbatim>\<open>glGenTextures\<close> on each occupied slot:
  after one load, teardown makes one \<^verbatim>\<open>glGenTextures\<close> call and no
  \<^verbatim>\<open>glDeleteTextures\<close> call, overwrites the slot's ID with the new name, and leaves
  \<^verbatim>\<open>m_loadedTextures\<close> at 1.
\<close>

theorem DestroyGLTextures_generates:
  "\<exists>s. CreateGLTexture (Some (64, 64, 3)) 1 (Some ''./Source/wood.jpg'') ''wood''
          (SceneManager_ctor Object) = Inr (True, s) \<and>
       (\<exists>s'. DestroyGLTextures textureNames s = Inr s' \<and>
          emitted s s' = [glGenTextures (textureNames 0)] \<and>
          (\<forall>name. glDeleteTextures name \<notin> set (effects s')) \<and>
          m_loadedTextures s' = 1 \<and>
          m_textureIDs s' ! 0 = \<lparr>TEXTURE_INFO.tag = ''wood'', ID = textureNames 0\<rparr>)"
  by (simp add: CreateGLTexture_def CreateGLTexture_register_def SceneManager_ctor_def Let_def
      DestroyGLTextures_def DestroyGLTextures_loop.simps emitted_def emit_def)

section \<open>The model matrix\<close>

lemma glm_rotate_X: "glm_rotate a (Vec3 1 0 0) = RotationX a"
  by (simp add: glm_rotate_def RotationX_def Let_def)

lemma glm_rotate_Y: "glm_rotate a (Vec3 0 1 0) = RotationY a"
  by (simp add: glm_rotate_def RotationY_def Let_def)

lemma glm_rotate_Z: "glm_rotate a (Vec3 0 0 1) = RotationZ a"
  by (simp add: glm_rotate_def RotationZ_def Let_def)

lemma glm_scale_Scale: "glm_scale k = Scale k"
  by (cases k) (simp add: Scale_def)

lemma glm_translate_Translation: "glm_translate p = Translation p"
  by (cases p) (simp add: Translation_def)

lemma vec4_add_assoc: "vec4_add (vec4_add a b) c = vec4_add a (vec4_add b c)"
  by (cases a; cases b; cases c) simp

lemma mat4_mul_vec4_assoc:
  "mat4_mul_vec4 (mat4_mul a b) v = mat4_mul_vec4 a (mat4_mul_vec4 b v)"
proof (cases a; cases b; cases v)
  fix a0 a1 a2 a3 b0 b1 b2 b3 x y z w
  assume "a = Mat4 a0 a1 a2 a3" "b = Mat4 b0 b1 b2 b3" "v = Vec4 x y z w"
  then show ?thesis
    by (cases a0; cases a1; cases a2; cases a3; cases b0; cases b1; cases b2; cases b3)
       (simp add: algebra_simps)
qed

lemma mat4_mul_assoc: "mat4_mul (mat4_mul a b) c = mat4_mul a (mat4_mul b c)"
  by (cases c) (simp add: mat4_mul_vec4_assoc)

lemma modelView_spec:
  "modelView scaleXYZ rx ry rz positionXYZ = spec_model_matrix scaleXYZ rx ry rz positionXYZ"
  by (simp add: modelView_def spec_model_matrix_def Let_def radians_def glm_rotate_X
      glm_rotate_Y glm_rotate_Z glm_scale_Scale glm_translate_Translation mat4_mul_assoc)

lemma modelView_example:
  "mat4_mul_vec4 (modelView (Vec3 2 1 1) 0 0 90 (Vec3 5 0 0)) (Vec4 1 0 0 1) = Vec4 5 2 0 1"
  by (simp add: modelView_def Let_def radians_def glm_rotate_def)


text \<open>
  C6. With a shader manager present, \<^verbatim>\<open>SetTransformations\<close> pushes, under the name
  \<^verbatim>\<open>model\<close>, exactly the matrix
  \<open>Translation(position) \<cdot> RotationX(rotX) \<cdot> RotationY(rotY) \<cdot> RotationZ(rotZ) \<cdot> Scale(scale)\<close>
  with each angle converted from degrees to radians; and for scale \<open>(2,1,1)\<close>, rotation
  \<open>(0,0,90)\<close> degrees and position \<open>(5,0,0)\<close> the pushed matrix takes the point
  \<open>(1,0,0)\<close> to \<open>(5,2,0)\<close> within \<open>10\<^sup>-\<^sup>5\<close>. Arithmetic is over the reals.
\<close>

theorem SetTransformations_composition:
  assumes "m_pShaderManager s \<noteq> NULL"
  shows "SetTransformations scaleXYZ rx ry rz positionXYZ s =
           Inr (emit [setMat4Value ''model''
             (spec_model_matrix scaleXYZ rx ry rz positionXYZ)] s) \<and>
         (\<exists>M. SetTransformations (Vec3 2 1 1) 0 0 90 (Vec3 5 0 0) s =
                Inr (emit [setMat4Value ''model'' M] s) \<and>
              within_tolerance (1 / 100000) (mat4_mul_vec4 M (Vec4 1 0 0 1)) (Vec4 5 2 0 1))"
proof
  from assms show "SetTransformations scaleXYZ rx ry rz positionXYZ s =
      Inr (emit [setMat4Value ''model'' (spec_model_matrix scaleXYZ rx ry rz positionXYZ)] s)"
    by (auto simp: SetTransformations_def modelView_spec)
  have "within_tolerance (1 / 100000)
      (mat4_mul_vec4 (modelView (Vec3 2 1 1) 0 0 90 (Vec3 5 0 0)) (Vec4 1 0 0 1)) (Vec4 5 2 0 1)"
    by (simp add: modelView_example)
  moreover from assms have "SetTransformations (Vec3 2 1 1) 0 0 90 (Vec3 5 0 0) s =
      Inr (emit [setMat4Value ''model'' (modelView (Vec3 2 1 1) 0 0 90 (Vec3 5 0 0))] s)"
    by (auto simp: SetTransformations_def)
  ultimately show "\<exists>M. SetTransformations (Vec3 2 1 1) 0 0 90 (Vec3 5 0 0) s =
        Inr (emit [setMat4Value ''model'' M] s) \<and>
      within_tolerance (1 / 100000) (mat4_mul_vec4 M (Vec4 1 0 0 1)) (Vec4 5 2 0 1)"
    by blast
qed

theorem SetTransformations_composition_witness:
  "m_pShaderManager (SceneManager_ctor Object) \<noteq> NULL \<and>
   SetTransformations (Vec3 1.25 2 1.25) (- 15) 0 (- 30) (Vec3 3 3 (- 0.75))
       (SceneManager_ctor Object) =
     Inr (emit [setMat4Value ''model''
       (spec_model_matrix (Vec3 1.25 2 1.25) (- 15) 0 (- 30) (Vec3 3 3 (- 0.75)))]
       (SceneManager_ctor Object)) \<and>
   (\<exists>M. SetTransformations (Vec3 2 1 1) 0 0 90 (Vec3 5 0 0) (SceneManager_ctor Object) =
          Inr (emit [setMat4Value ''model'' M] (SceneManager_ctor Object)) \<and>
        within_tolerance (1 / 100000) (mat4_mul_vec4 M (Vec4 1 0 0 1)) (Vec4 5 2 0 1))"
proof -
  have p: "m_pShaderManager (SceneManager_ctor Object) \<noteq> NULL"
    by (simp add: SceneManager_ctor_def)
  show ?thesis
    using SetTransformations_composition [OF p, of "Vec3 1.25 2 1.25" "- 15" 0 "- 30"
        "Vec3 3 3 (- 0.75)"] p
    by simp
qed

section \<open>Determinism of the object builders\<close>

lemma appendsI:
  assumes "\<And>s s'. c s = Inr s' \<Longrightarrow>
      \<exists>w. s' = emit w s \<and> (\<forall>e. c (s\<lparr>effects := e\<rparr>) = Inr (s\<lparr>effects := e @ w\<rparr>))"
  shows "appends c"
  using assms unfolding appends_def by blast

lemma emit_Nil [simp]: "emit [] s = s"
  by (simp add: emit_def)

lemma FindTextureSlot_loop_effects [simp]:
  "FindTextureSlot_loop (s\<lparr>effects := e\<rparr>) t textureSlot index bFound =
     FindTextureSlot_loop s t textureSlot index bFound"
proof (induction s t textureSlot index bFound rule: FindTextureSlot_loop.induct)
  case (1 s t textureSlot index bFound)
  show ?case
    using "1.IH"
    by (simp add: FindTextureSlot_loop.simps [of "s\<lparr>effects := e\<rparr>" t textureSlot index bFound]
        FindTextureSlot_loop.simps [of s t textureSlot index bFound])
qed

lemma FindTextureSlot_effects [simp]:
  "FindTextureSlot (s\<lparr>effects := e\<rparr>) t = FindTextureSlot s t"
  by (simp add: FindTextureSlot_def)

lemma FindMaterial_effects [simp]:
  "FindMaterial (s\<lparr>effects := e\<rparr>) t material = FindMaterial s t material"
  by (simp add: FindMaterial_def)

lemma appends_SetTransformations:
  "appends (SetTransformations scaleXYZ rx ry rz positionXYZ)"
proof (rule appendsI)
  fix s s'
  assume "SetTransformations scaleXYZ rx ry rz positionXYZ s = Inr s'"
  then show "\<exists>w. s' = emit w s \<and> (\<forall>e. SetTransformations scaleXYZ rx ry rz positionXYZ
      (s\<lparr>effects := e\<rparr>) = Inr (s\<lparr>effects := e @ w\<rparr>))"
    by (cases "m_pShaderManager s = NULL")
       (auto simp: SetTransformations_def emit_def intro: exI [of _ "[]"])
qed


lemma appends_SetShaderColor: "appends (SetShaderColor r g b a)"
proof (rule appendsI)
  fix s s'
  assume "SetShaderColor r g b a s = Inr s'"
  then show "\<exists>w. s' = emit w s \<and>
      (\<forall>e. SetShaderColor r g b a (s\<lparr>effects := e\<rparr>) = Inr (s\<lparr>effects := e @ w\<rparr>))"
    by (cases "m_pShaderManager s = NULL")
       (auto simp: SetShaderColor_def emit_def intro: exI [of _ "[]"])
qed

lemma appends_SetTextureUVScale: "appends (SetTextureUVScale u v)"
proof (rule appendsI)
  fix s s'
  assume "SetTextureUVScale u v s = Inr s'"
  then show "\<exists>w. s' = emit w s \<and>
      (\<forall>e. SetTextureUVScale u v (s\<lparr>effects := e\<rparr>) = Inr (s\<lparr>effects := e @ w\<rparr>))"
    by (cases "m_pShaderManager s = NULL")
       (auto simp: SetTextureUVScale_def emit_def intro: exI [of _ "[]"])
qed

lemma appends_SetShaderTexture: "appends (SetShaderTexture textureTag)"
proof (rule appendsI)
  fix s s'
  assume "SetShaderTexture textureTag s = Inr s'"
  then show "\<exists>w. s' = emit w s \<and>
      (\<forall>e. SetShaderTexture textureTag (s\<lparr>effects := e\<rparr>) = Inr (s\<lparr>effects := e @ w\<rparr>))"
    by (cases "m_pShaderManager s = NULL")
       (auto simp: SetShaderTexture_def emit_def split: sum.splits intro: exI [of _ "[]"])
qed

lemma appends_SetShaderMaterial: "appends (SetShaderMaterial material materialTag)"
proof (rule appendsI)
  fix s s'
  assume "SetShaderMaterial material materialTag s = Inr s'"
  then show "\<exists>w. s' = emit w s \<and> (\<forall>e. SetShaderMaterial material materialTag
      (s\<lparr>effects := e\<rparr>) = Inr (s\<lparr>effects := e @ w\<rparr>))"
    by (cases "m_objectMaterials s = []")
       (auto simp: SetShaderMaterial_def emit_def split: prod.splits if_splits
          intro: exI [of _ "[]"])
qed

lemma appends_m_basicMeshes: "appends (m_basicMeshes draw)"
  by (rule appendsI) (auto simp: m_basicMeshes_def emit_def)

lemma emit_emit [simp]: "emit w' (emit w s) = emit (w @ w') s"
  by (simp add: emit_def)

lemma emit_effects_update [simp]: "(emit w s)\<lparr>effects := e\<rparr> = s\<lparr>effects := e\<rparr>"
  by (simp add: emit_def)

lemma appends_sequence:
  assumes "\<And>c. c \<in> set cs \<Longrightarrow> appends c"
  shows "appends (sequence cs)"
  using assms
proof (induction cs)
  case Nil
  show ?case by (rule appendsI) (auto intro: exI [of _ "[]"])
next
  case (Cons c cs)
  have c: "appends c" and cs: "appends (sequence cs)" using Cons by simp_all
  show ?case
  proof (rule appendsI)
    fix s s'
    assume run: "sequence (c # cs) s = Inr s'"
    then obtain s1 where s1: "c s = Inr s1" and rest: "sequence cs s1 = Inr s'"
      by (auto split: sum.splits)
    from c s1 obtain w1 where w1: "s1 = emit w1 s"
      and c': "\<And>e. c (s\<lparr>effects := e\<rparr>) = Inr (s\<lparr>effects := e @ w1\<rparr>)"
      unfolding appends_def by blast
    from cs rest obtain w2 where w2: "s' = emit w2 s1"
      and cs': "\<And>e. sequence cs (s1\<lparr>effects := e\<rparr>) = Inr (s1\<lparr>effects := e @ w2\<rparr>)"
      unfolding appends_def by blast
    have "s' = emit (w1 @ w2) s" using w1 w2 by simp
    moreover have "sequence (c # cs) (s\<lparr>effects := e\<rparr>) = Inr (s\<lparr>effects := e @ w1 @ w2\<rparr>)" for e
      using c' [of e] cs' [of "e @ w1"] w1 by simp
    ultimately show "\<exists>w. s' = emit w s \<and>
        (\<forall>e. sequence (c # cs) (s\<lparr>effects := e\<rparr>) = Inr (s\<lparr>effects := e @ w\<rparr>))"
      by blast
  qed
qed

lemmas appends_calls = appends_SetTransformations appends_SetShaderColor
  appends_SetTextureUVScale appends_SetShaderTexture appends_SetShaderMaterial
  appends_m_basicMeshes

lemma appends_MakeDesk: "appends (MakeDesk material)"
  unfolding MakeDesk_def by (rule appends_sequence) (auto simp: appends_calls)

lemma appends_MakeBackWall: "appends (MakeBackWall material)"
  unfolding MakeBackWall_def by (rule appends_sequence) (auto simp: appends_calls)

lemma appends_MakeDeskStand: "appends (MakeDeskStand material)"
  unfolding MakeDeskStand_def by (rule appends_sequence) (auto simp: appends_calls)

lemma appends_MakeMug: "appends (MakeMug material)"
  unfolding MakeMug_def by (rule appends_sequence) (auto simp: appends_calls)

lemma appends_MakeBooks: "appends (MakeBooks material)"
  unfolding MakeBooks_def by (rule appends_sequence) (auto simp: appends_calls)

lemma appends_MakeLamp: "appends (MakeLamp material)"
  unfolding MakeLamp_def Let_def by (rule appends_sequence) (auto simp: appends_calls)

lemma appends_MakePenHolder: "appends (MakePenHolder material)"
  unfolding MakePenHolder_def Let_def by (rule appends_sequence) (auto simp: appends_calls)

lemma agree_on_refl: "appends c \<Longrightarrow> agree_on s c c"
  by (simp add: agree_on_def)

lemma FindMaterial_registered:
  assumes "t \<in> set (map OBJECT_MATERIAL.tag (m_objectMaterials s))"
  shows "\<exists>m. \<forall>material. FindMaterial s t material = (True, copy_coefficients m material)"
proof -
  from split_list_first [OF assms] obtain pre post
    where split: "map OBJECT_MATERIAL.tag (m_objectMaterials s) = pre @ t # post"
      and pre: "t \<notin> set pre"
    by blast
  from split obtain ms1 m ms2 where ms: "m_objectMaterials s = ms1 @ m # ms2"
    and "pre = map OBJECT_MATERIAL.tag ms1" and "t = OBJECT_MATERIAL.tag m"
    by (auto simp: map_eq_append_conv map_eq_Cons_conv)
  with pre have "OBJECT_MATERIAL.tag m = t" and "t \<notin> OBJECT_MATERIAL.tag ` set ms1"
    by auto
  then have "FindMaterial_loop (ms1 @ m # ms2) t material 0 False = copy_coefficients m material"
    for material
    by (intro FindMaterial_loop_first) simp_all
  then show ?thesis using ms by (auto simp: FindMaterial_def)
qed

lemma SetShaderMaterial_resolved:
  assumes "m_objectMaterials s = [] \<or> t \<in> set (map OBJECT_MATERIAL.tag (m_objectMaterials s))"
  shows "SetShaderMaterial material' t s = SetShaderMaterial material t s"
proof (cases "m_objectMaterials s = []")
  case True
  then show ?thesis by (simp add: SetShaderMaterial_def)
next
  case False
  with assms obtain m where "\<And>material. FindMaterial s t material =
      (True, copy_coefficients m material)"
    using FindMaterial_registered by blast
  then show ?thesis
    by (simp add: SetShaderMaterial_def copy_coefficients_def)
qed

lemma agree_on_SetShaderMaterial:
  assumes "material' = material \<or> materials_resolved s" and "t \<in> set builder_material_tags"
  shows "agree_on s (SetShaderMaterial material t) (SetShaderMaterial material' t)"
proof (cases "material' = material")
  case True
  then show ?thesis by (simp add: agree_on_refl appends_SetShaderMaterial)
next
  case False
  with assms have "m_objectMaterials s = [] \<or>
      t \<in> set (map OBJECT_MATERIAL.tag (m_objectMaterials s))"
    by (auto simp: materials_resolved_def)
  then have "SetShaderMaterial material' t (s\<lparr>effects := e\<rparr>) =
      SetShaderMaterial material t (s\<lparr>effects := e\<rparr>)" for e
    by (intro SetShaderMaterial_resolved) simp
  then show ?thesis by (simp add: agree_on_def appends_SetShaderMaterial)
qed

lemma agree_on_sequence:
  assumes "list_all2 (agree_on s) cs cs'"
  shows "agree_on s (sequence cs) (sequence cs')"
proof -
  have app: "appends (sequence cs)"
    using assms by (intro appends_sequence) (auto simp: list_all2_conv_all_nth in_set_conv_nth agree_on_def)
  have "sequence cs' (s\<lparr>effects := e\<rparr>) = sequence cs (s\<lparr>effects := e\<rparr>)" for e
    using assms
  proof (induction cs cs' arbitrary: e rule: list_all2_induct)
    case Nil
    show ?case by simp
  next
    case (Cons c cs c' cs')
    from Cons.hyps(1) have c: "appends c" and cc': "c' (s\<lparr>effects := e\<rparr>) = c (s\<lparr>effects := e\<rparr>)"
      by (simp_all add: agree_on_def)
    show ?case
    proof (cases "c (s\<lparr>effects := e\<rparr>)")
      case (Inl f)
      with cc' show ?thesis by simp
    next
      case (Inr s1)
      with c obtain w where "s1 = emit w (s\<lparr>effects := e\<rparr>)"
        unfolding appends_def by blast
      then have "s1 = s\<lparr>effects := e @ w\<rparr>" by (simp add: emit_def)
      with Inr cc' Cons.IH [of "e @ w"] show ?thesis by simp
    qed
  qed
  with app show ?thesis by (simp add: agree_on_def)
qed

lemma agree_on_repeat:
  assumes "agree_on s c c'" and "c s = Inr s1"
  shows "\<exists>s2. c' s1 = Inr s2 \<and> emitted s1 s2 = emitted s s1 \<and>
           m_textureIDs s1 = m_textureIDs s \<and> m_loadedTextures s1 = m_loadedTextures s \<and>
           m_objectMaterials s1 = m_objectMaterials s \<and>
           m_pShaderManager s1 = m_pShaderManager s"
proof -
  from assms obtain w where w: "s1 = emit w s"
    and c: "\<And>e. c (s\<lparr>effects := e\<rparr>) = Inr (s\<lparr>effects := e @ w\<rparr>)"
    unfolding agree_on_def appends_def by blast
  have "s1 = s\<lparr>effects := effects s @ w\<rparr>" using w by (simp add: emit_def)
  moreover have "c' (s\<lparr>effects := effects s @ w\<rparr>) = c (s\<lparr>effects := effects s @ w\<rparr>)"
    using assms(1) by (simp add: agree_on_def)
  ultimately have "c' s1 = Inr (s\<lparr>effects := (effects s @ w) @ w\<rparr>)"
    using c [of "effects s @ w"] by simp
  then show ?thesis using w by (simp add: emitted_def emit_def)
qed

lemmas agree_on_calls =
  appends_calls [THEN agree_on_refl]

lemma agree_on_builders:
  assumes "material' = material \<or> materials_resolved s"
  shows "list_all2 (agree_on s) (object_builders material) (object_builders material')"
  unfolding object_builders_def MakeDesk_def MakeBackWall_def MakeDeskStand_def MakeMug_def
    MakeBooks_def MakeLamp_def MakePenHolder_def Let_def
  using assms
  by (auto intro!: agree_on_sequence agree_on_SetShaderMaterial
      simp: agree_on_calls builder_material_tags_def)

lemma MakeDesk_prepared:
  "MakeDesk material (DefineObjectMaterials (SceneManager_ctor Object)) =
     Inr (emit
       ([setMat4Value ''model'' (modelView (Vec3 30 1 10) 0 0 0 (Vec3 0 0 0)),
         setIntValue ''bUseTexture'' 1,
         setSampler2DValue ''objectTexture'' (- 1),
         setVec2Value ''UVscale'' (Vec2 2 2)] @
        material_writes (m_objectMaterials (DefineObjectMaterials (SceneManager_ctor Object)) ! 0) @
        [DrawPlaneMesh])
       (DefineObjectMaterials (SceneManager_ctor Object)))"
  by (simp add: MakeDesk_def SetTransformations_def SetShaderTexture_def FindTextureSlot_def
      FindTextureSlot_loop.simps SetTextureUVScale_def SetShaderMaterial_def FindMaterial_def
      FindMaterial_loop.simps DefineObjectMaterials_def SceneManager_ctor_def m_basicMeshes_def
      emit_def Let_def material_writes_def)

lemma materials_resolved_prepared:
  "materials_resolved (DefineObjectMaterials (SceneManager_ctor p))"
  unfolding materials_resolved_def material_tags_DefineObjectMaterials
  by (simp add: builder_material_tags_def)

text \<open>
  C9. For each of the seven object builders: when an invocation from \<open>s\<close> returns in
  \<open>s1\<close>, the next invocation, from \<open>s1\<close>, returns too and adds to the record of
  calls exactly the sequence the first one added (every matrix, sampler index,
  material value and draw call, in order); the registries and the shader pointer are
  as before. \<open>material\<close> and \<open>material'\<close> are what the uninitialised local of
  \<^verbatim>\<open>SetShaderMaterial\<close> holds during the first and the second invocation: they may
  differ when the materials are resolved, and are the same value otherwise.
\<close>

theorem object_builders_deterministic:
  assumes "i < length (object_builders material)"
    and "(object_builders material ! i) s = Inr s1"
    and "material' = material \<or> materials_resolved s"
  shows "\<exists>s2. (object_builders material' ! i) s1 = Inr s2 \<and> emitted s1 s2 = emitted s s1 \<and>
           m_textureIDs s1 = m_textureIDs s \<and> m_loadedTextures s1 = m_loadedTextures s \<and>
           m_objectMaterials s1 = m_objectMaterials s \<and>
           m_pShaderManager s1 = m_pShaderManager s"
proof -
  have "agree_on s (object_builders material ! i) (object_builders material' ! i)"
    using agree_on_builders [OF assms(3)] assms(1) by (rule list_all2_nthD)
  then show ?thesis using assms(2) by (rule agree_on_repeat)
qed


theorem object_builders_deterministic_witness:
  "0 < length (object_builders (paper_material 0)) \<and>
   materials_resolved (DefineObjectMaterials (SceneManager_ctor Object)) \<and>
   (\<exists>s1 s2.
      (object_builders (paper_material 0) ! 0)
         (DefineObjectMaterials (SceneManager_ctor Object)) = Inr s1 \<and>
      (object_builders (paper_material 1) ! 0) s1 = Inr s2 \<and>
      emitted s1 s2 = emitted (DefineObjectMaterials (SceneManager_ctor Object)) s1 \<and>
      emitted (DefineObjectMaterials (SceneManager_ctor Object)) s1 =
        [setMat4Value ''model'' (modelView (Vec3 30 1 10) 0 0 0 (Vec3 0 0 0)),
         setIntValue ''bUseTexture'' 1,
         setSampler2DValue ''objectTexture'' (- 1),
         setVec2Value ''UVscale'' (Vec2 2 2)] @
        material_writes
          (m_objectMaterials (DefineObjectMaterials (SceneManager_ctor Object)) ! 0) @
        [DrawPlaneMesh])"
proof -
  let ?s = "DefineObjectMaterials (SceneManager_ctor Object)"
  let ?w = "[setMat4Value ''model'' (modelView (Vec3 30 1 10) 0 0 0 (Vec3 0 0 0)),
         setIntValue ''bUseTexture'' 1,
         setSampler2DValue ''objectTexture'' (- 1),
         setVec2Value ''UVscale'' (Vec2 2 2)] @
        material_writes (m_objectMaterials ?s ! 0) @ [DrawPlaneMesh]"
  have len: "0 < length (object_builders (paper_material 0))"
    by (simp add: object_builders_def)
  have res: "materials_resolved ?s" by (rule materials_resolved_prepared)
  have run: "(object_builders (paper_material 0) ! 0) ?s = Inr (emit ?w ?s)"
    by (simp only: object_builders_def nth_Cons_0 MakeDesk_prepared)
  from object_builders_deterministic [OF len run disjI2 [OF res], of "paper_material 1"]
  obtain s2 where "(object_builders (paper_material 1) ! 0) (emit ?w ?s) = Inr s2"
    and "emitted (emit ?w ?s) s2 = emitted ?s (emit ?w ?s)"
    by blast
  moreover have "emitted ?s (emit ?w ?s) = ?w"
    by (simp add: emitted_def)
  ultimately show ?thesis using len res run by blast
qed

end
